theory Spec2Isabelle
  imports Complex_Main "HOL-Library.AList"
begin

section \<open>Python values, exceptions and attribute reads\<close>

text \<open>
  The transformers are Python classes. A method that raises is modelled as a function
  into a sum type: \<open>Inl e\<close> is the exception \<open>e\<close> leaving the call, \<open>Inr v\<close> is the normal
  return of \<open>v\<close>. The exception classes are the ones the source raises (or that the
  interpreter raises for it): the spec's ConfigurationError and DataIntegrityError are
  \<open>ValueError\<close> in the code, its IndexIntegrityError is \<open>NotImplementedError\<close>.
\<close>

datatype error =
    AttributeError
  | KeyError
  | NameError
  | NotFittedError
  | NotImplementedError
  | TypeError
  | ValueError

text \<open>Constructor arguments are untyped in Python: any value can be passed.\<close>

datatype pyval =
    PyNone
  | PyBool bool
  | PyInt int
  | PyStr string
  | PyList "pyval list"

text \<open>Sequencing of two steps: the second runs only when the first did not raise.\<close>

definition and_then :: "error + 'a \<Rightarrow> ('a \<Rightarrow> error + 'b) \<Rightarrow> error + 'b" where
  "and_then r f = (case r of Inl e \<Rightarrow> Inl e | Inr v \<Rightarrow> f v)"

text \<open>
  Reading an instance attribute: an attribute that was never assigned is \<open>None\<close> in the
  model, and reading it raises \<open>AttributeError\<close>.
\<close>

definition getattr :: "'a option \<Rightarrow> error + 'a" where
  "getattr a = (case a of None \<Rightarrow> Inl AttributeError | Some v \<Rightarrow> Inr v)"

text \<open>\<open>isinstance(v, bool)\<close>.\<close>

definition isinstance_bool :: "pyval \<Rightarrow> bool" where
  "isinstance_bool v = (case v of PyBool _ \<Rightarrow> True | _ \<Rightarrow> False)"

text \<open>What a method call evaluates to: \<open>self\<close>, \<open>None\<close>, or a data value.\<close>

datatype 'a pyresult = ReturnsSelf | ReturnsNone | Returns 'a

text \<open>Truth value of a Python value, as \<open>if v:\<close> tests it.\<close>

definition truthy :: "pyval \<Rightarrow> bool" where
  "truthy v = (case v of PyNone \<Rightarrow> False | PyBool b \<Rightarrow> b | PyInt n \<Rightarrow> n \<noteq> 0
                 | PyStr s \<Rightarrow> s \<noteq> [] | PyList l \<Rightarrow> l \<noteq> [])"


section \<open>Tables\<close>

text \<open>
  A number in a table is a float: finite, or one of the two infinities. Finite floats are
  modelled as rationals, so sums and quotients are exact. \<open>NaN\<close> is the missing-value
  marker. A cell is missing, a number, a string, or an interval \<open>(lo, hi]\<close> as
  \<open>pandas.cut\<close> produces.
\<close>

datatype xnum = MInf | Fin rat | PInf

datatype cell = NaN | Num xnum | Str string | Interval xnum xnum

fun xless :: "xnum \<Rightarrow> xnum \<Rightarrow> bool" where
  "xless MInf MInf = False"
| "xless MInf _ = True"
| "xless (Fin a) (Fin b) = (a < b)"
| "xless (Fin a) PInf = True"
| "xless (Fin a) MInf = False"
| "xless PInf _ = False"

text \<open>
  A data frame: the row labels (\<open>None\<close> is a null label) and the named columns in
  order. In a well-formed frame every column is as long as the index.
\<close>

record dataframe =
  index :: "int option list"
  columns :: "(string \<times> cell list) list"

text \<open>What a caller passes where a table is expected: a frame, or anything else.\<close>

datatype table_arg = Frame dataframe | NotFrame pyval

text \<open>
  \<open>X[name]\<close>: the column of that name. No such column is a \<open>KeyError\<close>. A name that
  several columns carry selects a frame and not a series; the operations below that need
  a series (\<open>pandas.cut\<close>, the key of a \<open>groupby\<close>) raise \<open>ValueError\<close> on it.
\<close>

definition get_column :: "dataframe \<Rightarrow> string \<Rightarrow> error + cell list" where
  "get_column X name =
     (case filter (\<lambda>c. fst c = name) (columns X) of
        [] \<Rightarrow> Inl KeyError
      | [c] \<Rightarrow> Inr (snd c)
      | _ \<Rightarrow> Inl ValueError)"

text \<open>\<open>X[name] = values\<close> for a column that exists.\<close>

definition set_column :: "dataframe \<Rightarrow> string \<Rightarrow> cell list \<Rightarrow> dataframe" where
  "set_column X name values =
     X\<lparr>columns := map (\<lambda>c. if fst c = name then (name, values) else c) (columns X)\<rparr>"

text \<open>\<open>X[names]\<close>: the columns of these names, a \<open>KeyError\<close> when one is no column.\<close>

fun select_columns :: "dataframe \<Rightarrow> string list \<Rightarrow> error + cell list list" where
  "select_columns X [] = Inr []"
| "select_columns X (n # ns) =
     (case filter (\<lambda>c. fst c = n) (columns X) of
        [] \<Rightarrow> Inl KeyError
      | cs \<Rightarrow> and_then (select_columns X ns) (\<lambda>rest. Inr (map snd cs @ rest)))"

definition is_inf :: "cell \<Rightarrow> bool" where
  "is_inf c = (c = Num PInf \<or> c = Num MInf)"

text \<open>\<open>X.isnull().sum().sum()\<close> over a selection of columns.\<close>

definition isnull_count :: "cell list list \<Rightarrow> nat" where
  "isnull_count cs = length (filter (\<lambda>c. c = NaN) (concat cs))"

text \<open>
  \<open>X.sort_index()\<close>: the rows in increasing order of their labels, null labels last.
\<close>

definition df_sort_index :: "dataframe \<Rightarrow> dataframe" where
  "df_sort_index X =
     (let rows = [0..<length (index X)];
          order = sort_key (\<lambda>k. the (index X ! k)) (filter (\<lambda>k. index X ! k \<noteq> None) rows)
                  @ filter (\<lambda>k. index X ! k = None) rows
      in \<lparr>index = map (\<lambda>k. index X ! k) order,
          columns = map (\<lambda>c. (fst c, map (\<lambda>k. snd c ! k) order)) (columns X)\<rparr>)"


section \<open>Instances\<close>

text \<open>
  The state of a transformer object: the attributes that the modelled methods assign or
  read. \<open>None\<close> is an attribute that has not been assigned. The attributes the
  constructors assign hold whatever value was passed; the attributes learned by \<open>fit\<close>
  (in Python their names end in an underscore: \<open>variables_\<close>, \<open>n_features_in_\<close>,
  \<open>feature_names_in_\<close>, \<open>binner_dict_\<close>, \<open>encoder_dict_\<close>) hold what \<open>fit\<close> computes.
  A Python dict is an association list with distinct keys, in insertion order.
\<close>

record estimator =
  return_object :: "pyval option"
  return_boundaries :: "pyval option"
  errors :: "pyval option"
  missing_values :: "pyval option"
  drop_original :: "pyval option"
  sort_index :: "pyval option"
  periods :: "pyval option"
  regression :: "pyval option"
  bins :: "pyval option"
  strategy :: "pyval option"
  variables_fit :: "string list option"
  n_features_in :: "nat option"
  feature_names_in :: "string list option"
  binner_dict :: "(string \<times> xnum list) list option"
  encoder_dict :: "(string \<times> (cell \<times> cell) list) list option"

text \<open>The object before \<open>__init__\<close> runs.\<close>

definition new_object :: estimator where
  "new_object =
     \<lparr>return_object = None, return_boundaries = None, errors = None, missing_values = None,
      drop_original = None, sort_index = None, periods = None, regression = None, bins = None,
      strategy = None, variables_fit = None, n_features_in = None, feature_names_in = None,
      binner_dict = None, encoder_dict = None\<rparr>"

text \<open>
  \<open>sklearn.utils.validation.check_is_fitted(self)\<close>: the instance is fitted when it has
  an attribute whose name ends in an underscore.
\<close>

definition check_is_fitted :: "estimator \<Rightarrow> bool" where
  "check_is_fitted self =
     (\<not> (variables_fit self = None \<and> n_features_in self = None \<and> feature_names_in self = None
         \<and> binner_dict self = None \<and> encoder_dict self = None))"


section \<open>The checks of \<open>feature_engine.dataframe_checks\<close>\<close>

text \<open>
  Modelled from the spec: \<open>_is_dataframe\<close> of \<open>feature_engine.dataframe_checks\<close> is not
  among the sources. Spec 7: TypeError (wrong input container type); the test
  \<open>test_error_when_df_in_transform_is_not_a_dataframe\<close> expects \<open>TypeError\<close> for a
  series. The callers use the table it returns.
\<close>

definition is_dataframe :: "table_arg \<Rightarrow> error + dataframe" where
  "is_dataframe X = (case X of Frame df \<Rightarrow> Inr df | NotFrame _ \<Rightarrow> Inl TypeError)"

text \<open>
  Modelled from the spec: \<open>_check_input_matches_training_df\<close> of
  \<open>feature_engine.dataframe_checks\<close> is not among the sources. Spec 7: SchemaMismatchError
  (transform-time table shape/columns disagree with fit-time table); the caller's comment:
  check if input data contains the same number of columns as the fitted dataframe.
\<close>

definition check_input_matches_training_df :: "dataframe \<Rightarrow> nat \<Rightarrow> error + unit" where
  "check_input_matches_training_df X n =
     (if length (columns X) = n then Inr () else Inl ValueError)"

text \<open>
  Modelled from the spec: \<open>_check_contains_na\<close> and \<open>_check_contains_inf\<close> of
  \<open>feature_engine.dataframe_checks\<close> are not among the sources. The docstring of
  \<open>BaseForecast._check_na_and_inf\<close>, which calls both: checks that the dataframe does not
  contain NaN or infinite values. They look at the columns named by \<open>variables\<close>, at all
  columns when none are named.
\<close>

definition check_contains_na :: "dataframe \<Rightarrow> string list option \<Rightarrow> error + unit" where
  "check_contains_na X variables =
     and_then (case variables of None \<Rightarrow> Inr (map snd (columns X))
               | Some vs \<Rightarrow> select_columns X vs) (\<lambda>cs.
     if list_ex (\<lambda>c. c = NaN) (concat cs) then Inl ValueError else Inr ())"

definition check_contains_inf :: "dataframe \<Rightarrow> string list option \<Rightarrow> error + unit" where
  "check_contains_inf X variables =
     and_then (case variables of None \<Rightarrow> Inr (map snd (columns X))
               | Some vs \<Rightarrow> select_columns X vs) (\<lambda>cs.
     if list_ex is_inf (concat cs) then Inl ValueError else Inr ())"


section \<open>\<open>BaseForecast\<close>\<close>

text \<open>
  \<^verbatim>\<open>
  def __init__(self, missing_values="raise", drop_original=False):
      if missing_values not in ["raise", "ignore"]:
          raise ValueError(...)
      if not isinstance(drop_original, bool):
          raise ValueError(...)
      self.missing_values = missing_values
      self.drop_original = drop_original
  \<close>
\<close>

definition BaseForecast_init :: "estimator \<Rightarrow> pyval \<Rightarrow> pyval \<Rightarrow> error + estimator" where
  "BaseForecast_init self missing_values_arg drop_original_arg =
     (if missing_values_arg \<notin> set [PyStr ''raise'', PyStr ''ignore''] then Inl ValueError
      else if \<not> isinstance_bool drop_original_arg then Inl ValueError
      else Inr (self\<lparr>missing_values := Some missing_values_arg,
                      drop_original := Some drop_original_arg\<rparr>))"

text \<open>
  \<open>BaseForecast.transform\<close>, the checks every forecasting transformer runs before it
  shifts a column: fitted, a frame, the column count of the training table, an index
  without nulls, a unique index, then (only when \<open>missing_values == "raise"\<close>) no NaN and
  no infinite value in the selected columns, then the optional sort by index.
  \<open>variables_\<close> and \<open>sort_index\<close> are assigned by the subclasses.
\<close>

definition BaseForecast_transform :: "estimator \<Rightarrow> table_arg \<Rightarrow> error + dataframe" where
  "BaseForecast_transform self X_arg =
     (if \<not> check_is_fitted self then Inl NotFittedError
      else
      and_then (is_dataframe X_arg) (\<lambda>X.
      and_then (getattr (n_features_in self)) (\<lambda>n.
      and_then (check_input_matches_training_df X n) (\<lambda>_.
      if 0 < length (filter (\<lambda>l. l = None) (index X)) then Inl NotImplementedError
      else if \<not> distinct (index X) then Inl NotImplementedError
      else
      and_then (getattr (missing_values self)) (\<lambda>mv.
      and_then (if mv = PyStr ''raise''
                then and_then (getattr (variables_fit self)) (\<lambda>vs.
                     and_then (check_contains_na X (Some vs)) (\<lambda>_.
                     check_contains_inf X (Some vs)))
                else Inr ()) (\<lambda>_.
      and_then (getattr (sort_index self)) (\<lambda>si.
      Inr (if si = PyBool True then df_sort_index X else X))))))))"

text \<open>
  Modelled from the spec: the constructor of \<open>TimeSeriesLagTransformer\<close> is not among the
  sources; this is its call with \<open>freq\<close> left unset. Spec 6: \<open>periods: positive int\<close>;
  spec 7: an invalid constructor argument is checked eagerly at construction; spec 8:
  \<open>TimeSeriesLagTransformer(periods="cumbia")\<close> fails with ConfigurationError. The other
  two arguments go to \<open>BaseForecast.__init__\<close>.
\<close>

definition TimeSeriesLagTransformer_init ::
  "estimator \<Rightarrow> pyval \<Rightarrow> pyval \<Rightarrow> pyval \<Rightarrow> error + estimator" where
  "TimeSeriesLagTransformer_init self periods_arg missing_values_arg drop_original_arg =
     (case periods_arg of
        PyInt n \<Rightarrow>
          if 0 < n
          then and_then (BaseForecast_init self missing_values_arg drop_original_arg) (\<lambda>s.
               Inr (s\<lparr>periods := Some periods_arg\<rparr>))
          else Inl ValueError
      | _ \<Rightarrow> Inl ValueError)"


section \<open>\<open>BaseDiscretiser\<close>\<close>

text \<open>
  \<^verbatim>\<open>
  def __init__(self, return_object=False, return_boundaries=False, errors="ignore"):
      if not isinstance(return_object, bool):
          raise ValueError(...)
      if not isinstance(return_boundaries, bool):
          raise ValueError(...)
      if errors not in ["ignore", "raise"]:
          raise ValueError(...)
      self.return_object = return_object
      self.return_boundaries = return_boundaries
      self.errors = errors
  \<close>
\<close>

definition BaseDiscretiser_init :: "estimator \<Rightarrow> pyval \<Rightarrow> pyval \<Rightarrow> pyval \<Rightarrow> error + estimator" where
  "BaseDiscretiser_init self return_object_arg return_boundaries_arg errors_arg =
     (if \<not> isinstance_bool return_object_arg then Inl ValueError
      else if \<not> isinstance_bool return_boundaries_arg then Inl ValueError
      else if errors_arg \<notin> set [PyStr ''ignore'', PyStr ''raise''] then Inl ValueError
      else Inr (self\<lparr>return_object := Some return_object_arg,
                      return_boundaries := Some return_boundaries_arg,
                      errors := Some errors_arg\<rparr>))"

text \<open>
  \<open>pandas.cut(x, edges)\<close> with a list of edges and the defaults \<open>right=True\<close>,
  \<open>include_lowest=False\<close>, \<open>duplicates="raise"\<close>. The edges must not decrease and (unless
  there are exactly two) must be distinct. A value \<open>v\<close> is placed by
  \<open>edges.searchsorted(v, side="left")\<close>, the number of edges below \<open>v\<close>: it lies in the
  interval \<open>(edges[i-1], edges[i]]\<close> for that count \<open>i\<close>, and is missing when \<open>i\<close> is \<open>0\<close>
  or the number of edges. With \<open>labels=False\<close> the result is the position \<open>i - 1\<close> of the
  interval, else the interval itself.
\<close>

fun increasing :: "xnum list \<Rightarrow> bool" where
  "increasing (a # b # rest) = (\<not> xless b a \<and> increasing (b # rest))"
| "increasing _ = True"

definition searchsorted_left :: "xnum list \<Rightarrow> xnum \<Rightarrow> nat" where
  "searchsorted_left edges v = length (takeWhile (\<lambda>b. xless b v) edges)"

definition cut_cell :: "xnum list \<Rightarrow> bool \<Rightarrow> cell \<Rightarrow> error + cell" where
  "cut_cell edges labels_false c =
     (case c of
        NaN \<Rightarrow> Inr NaN
      | Num v \<Rightarrow>
          (let i = searchsorted_left edges v in
           if i = 0 \<or> i = length edges then Inr NaN
           else if labels_false then Inr (Num (Fin (of_nat (i - 1))))
           else Inr (Interval (edges ! (i - 1)) (edges ! i)))
      | _ \<Rightarrow> Inl TypeError)"

fun map_raising :: "('a \<Rightarrow> error + 'b) \<Rightarrow> 'a list \<Rightarrow> error + 'b list" where
  "map_raising f [] = Inr []"
| "map_raising f (x # xs) =
     (case f x of
        Inl e \<Rightarrow> Inl e
      | Inr y \<Rightarrow> (case map_raising f xs of Inl e \<Rightarrow> Inl e | Inr ys \<Rightarrow> Inr (y # ys)))"

definition pd_cut :: "cell list \<Rightarrow> xnum list \<Rightarrow> bool \<Rightarrow> error + cell list" where
  "pd_cut x edges labels_false =
     (if \<not> increasing edges then Inl ValueError
      else if \<not> distinct edges \<and> length edges \<noteq> 2 then Inl ValueError
      else map_raising (cut_cell edges labels_false) x)"

text \<open>\<open>d[key]\<close> on a dict.\<close>

definition dict_get :: "('k \<times> 'v) list \<Rightarrow> 'k \<Rightarrow> error + 'v" where
  "dict_get d key = (case map_of d key of None \<Rightarrow> Inl KeyError | Some v \<Rightarrow> Inr v)"

text \<open>
  The loop \<open>for feature in self.variables_: X[feature] = pd.cut(X[feature],
  self.binner_dict_[feature] [, labels=False])\<close>.
\<close>

fun cut_features :: "estimator \<Rightarrow> bool \<Rightarrow> string list \<Rightarrow> dataframe \<Rightarrow> error + dataframe" where
  "cut_features self labels_false [] X = Inr X"
| "cut_features self labels_false (feature # rest) X =
     (case get_column X feature of
        Inl e \<Rightarrow> Inl e
      | Inr col \<Rightarrow>
     (case getattr (binner_dict self) of
        Inl e \<Rightarrow> Inl e
      | Inr bd \<Rightarrow>
     (case dict_get bd feature of
        Inl e \<Rightarrow> Inl e
      | Inr edges \<Rightarrow>
     (case pd_cut col edges labels_false of
        Inl e \<Rightarrow> Inl e
      | Inr new \<Rightarrow> cut_features self labels_false rest (set_column X feature new)))))"

text \<open>
  \<open>BaseDiscretiser.transform\<close>. \<open>super().transform(X)\<close> is
  \<open>BaseNumericalTransformer.transform\<close>, which is not among the sources: it is the
  parameter \<open>super_transform\<close>. \<open>astype("O")\<close> changes the dtype of the selected columns
  and no value; \<open>warnings.warn\<close> changes nothing that is returned.

  \<^verbatim>\<open>
      X = super().transform(X)
      if self.return_boundaries:
          for feature in self.variables_:
              X[feature] = pd.cut(X[feature], self.binner_dict_[feature])
      else:
          for feature in self.variables_:
              X[feature] = pd.cut(X[feature], self.binner_dict_[feature], labels=False)
          if self.return_object:
              X[self.variables_] = X[self.variables_].astype("O")
      if X[self.encoder_dict_.keys()].isnull().sum().sum() > 0:
          ...
          if self.errors == "ignore":
              warnings.warn(...)
          elif self.errors == "raise":
              raise ValueError(...)
      return X
  \<close>
\<close>

definition discretise :: "estimator \<Rightarrow> dataframe \<Rightarrow> error + dataframe" where
  "discretise self X =
     and_then (getattr (return_boundaries self)) (\<lambda>rb.
     if truthy rb
     then and_then (getattr (variables_fit self)) (\<lambda>vs. cut_features self False vs X)
     else and_then (getattr (variables_fit self)) (\<lambda>vs.
          and_then (cut_features self True vs X) (\<lambda>X.
          and_then (getattr (return_object self)) (\<lambda>ro.
          if truthy ro
          then and_then (getattr (variables_fit self)) (\<lambda>vs.
               and_then (select_columns X vs) (\<lambda>_. Inr X))
          else Inr X))))"

definition check_introduced_nan :: "estimator \<Rightarrow> dataframe \<Rightarrow> error + dataframe" where
  "check_introduced_nan self X =
     and_then (getattr (encoder_dict self)) (\<lambda>ed.
     and_then (select_columns X (map fst ed)) (\<lambda>cs.
     if 0 < isnull_count cs
     then and_then (getattr (errors self)) (\<lambda>e.
          if e = PyStr ''ignore'' then Inr X
          else if e = PyStr ''raise'' then Inl ValueError
          else Inr X)
     else Inr X))"

definition BaseDiscretiser_transform ::
  "(estimator \<Rightarrow> table_arg \<Rightarrow> error + dataframe) \<Rightarrow> estimator \<Rightarrow> table_arg \<Rightarrow> error + dataframe" where
  "BaseDiscretiser_transform super_transform self X_arg =
     and_then (super_transform self X_arg) (\<lambda>X.
     and_then (discretise self X) (\<lambda>X.
     check_introduced_nan self X))"

text \<open>
  Modelled from the spec: \<open>BaseNumericalTransformer.transform\<close> is not among the sources.
  The comment at its call in \<open>BaseDiscretiser.transform\<close>: check input dataframe and if
  class was fitted. Spec 7: NotFittedError (transform called before fit), TypeError (wrong
  input container type), SchemaMismatchError (transform-time table shape disagrees with
  the fit-time table).
\<close>

definition BaseNumericalTransformer_transform :: "estimator \<Rightarrow> table_arg \<Rightarrow> error + dataframe" where
  "BaseNumericalTransformer_transform self X_arg =
     (if \<not> check_is_fitted self then Inl NotFittedError
      else
      and_then (is_dataframe X_arg) (\<lambda>X.
      and_then (getattr (n_features_in self)) (\<lambda>n.
      and_then (check_input_matches_training_df X n) (\<lambda>_. Inr X))))"


section \<open>\<open>MeanEncoder.fit\<close>\<close>

text \<open>
  The mean of a group of target cells as \<open>pandas\<close> computes it: missing cells are
  skipped, a group with no number has a missing mean, and the infinities follow float
  arithmetic (both signs together give NaN).
\<close>

definition numbers :: "cell list \<Rightarrow> xnum list" where
  "numbers cs = List.map_filter (\<lambda>c. case c of Num v \<Rightarrow> Some v | _ \<Rightarrow> None) cs"

definition finite_values :: "xnum list \<Rightarrow> rat list" where
  "finite_values vs = List.map_filter (\<lambda>v. case v of Fin r \<Rightarrow> Some r | _ \<Rightarrow> None) vs"

definition mean_cells :: "cell list \<Rightarrow> cell" where
  "mean_cells cs =
     (let vs = numbers cs in
      if vs = [] then NaN
      else if PInf \<in> set vs \<and> MInf \<in> set vs then NaN
      else if PInf \<in> set vs then Num PInf
      else if MInf \<in> set vs then Num MInf
      else Num (Fin (sum_list (finite_values vs) / of_nat (length vs))))"

definition is_numeric_or_missing :: "cell \<Rightarrow> bool" where
  "is_numeric_or_missing c = (case c of NaN \<Rightarrow> True | Num _ \<Rightarrow> True | _ \<Rightarrow> False)"

text \<open>
  \<open>temp.groupby(var)["target"].mean().to_dict()\<close>: one key per distinct value of the
  column \<open>var\<close> (rows whose key is missing are dropped by \<open>groupby\<close>), mapped to the mean
  of the target over the rows with that key. A target column that holds anything but
  numbers has no mean (\<open>TypeError\<close>). The order of the keys does not enter the equality
  of Python dicts.
\<close>

definition groupby_target_mean :: "dataframe \<Rightarrow> string \<Rightarrow> error + (cell \<times> cell) list" where
  "groupby_target_mean temp var =
     and_then (get_column temp var) (\<lambda>keys.
     and_then (get_column temp ''target'') (\<lambda>target.
     if \<not> list_all is_numeric_or_missing target then Inl TypeError
     else Inr (map (\<lambda>k. (k, mean_cells (map snd (filter (\<lambda>row. fst row = k) (zip keys target)))))
                   (remdups (filter (\<lambda>k. k \<noteq> NaN) keys)))))"

text \<open>
  The loop \<open>for var in self.variables_: self.encoder_dict_[var] = ...\<close>.
\<close>

fun fit_variables :: "dataframe \<Rightarrow> string list \<Rightarrow> estimator \<Rightarrow> error + estimator" where
  "fit_variables temp [] self = Inr self"
| "fit_variables temp (var # rest) self =
     (case groupby_target_mean temp var of
        Inl e \<Rightarrow> Inl e
      | Inr d \<Rightarrow>
     (case getattr (encoder_dict self) of
        Inl e \<Rightarrow> Inl e
      | Inr ed \<Rightarrow> fit_variables temp rest (self\<lparr>encoder_dict := Some (AList.update var d ed)\<rparr>)))"

text \<open>
  \<^verbatim>\<open>
  def fit(self, X, y):
      X = self._check_fit_input_and_variables(X)
      if not isinstance(y, pd.Series):
          y = pd.Series(y)
      temp = pd.concat([X, y], axis=1)
      temp.columns = list(X.columns) + ["target"]
      self.encoder_dict_ = {}
      for var in self.variables_:
          self.encoder_dict_[var] = temp.groupby(var)["target"].mean().to_dict()
      self._check_encoding_dictionary()
      self.n_features_in_ = X.shape[1]
      return self
  \<close>
  \<open>_check_fit_input_and_variables\<close> and \<open>_check_encoding_dictionary\<close> are methods of
  \<open>BaseCategorical\<close>, which is not among the sources: they are the parameters
  \<open>check_fit_input_and_variables\<close> (it returns the checked table and the instance with
  what it assigned, \<open>variables_\<close>) and \<open>check_encoding_dictionary\<close>. The target \<open>y\<close>
  carries the row index of \<open>X\<close>, so \<open>pd.concat(axis=1)\<close> puts \<open>y[i]\<close> beside row \<open>i\<close>.
\<close>

definition MeanEncoder_fit ::
  "(estimator \<Rightarrow> table_arg \<Rightarrow> error + dataframe \<times> estimator) \<Rightarrow> (estimator \<Rightarrow> error + unit) \<Rightarrow>
   estimator \<Rightarrow> table_arg \<Rightarrow> cell list \<Rightarrow> error + cell list pyresult \<times> estimator" where
  "MeanEncoder_fit check_fit_input_and_variables check_encoding_dictionary self X_arg y =
     and_then (check_fit_input_and_variables self X_arg) (\<lambda>checked.
     let X = fst checked;
         self1 = snd checked;
         temp = X\<lparr>columns := columns X @ [(''target'', y)]\<rparr>;
         self2 = self1\<lparr>encoder_dict := Some []\<rparr>
     in
     and_then (getattr (variables_fit self2)) (\<lambda>vs.
     and_then (fit_variables temp vs self2) (\<lambda>self3.
     and_then (check_encoding_dictionary self3) (\<lambda>_.
     Inr (ReturnsSelf, self3\<lparr>n_features_in := Some (length (columns X))\<rparr>)))))"


section \<open>\<open>TargetMeanPredictor\<close>\<close>

text \<open>
  \<^verbatim>\<open>
  def __init__(self, regression=True, bins=5, strategy="equal-width"):
      self.regression = regression
      self.bins = bins
      self.strategy = strategy

  def fit(self, X, y=None):
      _is_dataframe(X)
      _check_contains_na(X)
      if not isinstance(y, pd.Series):
          y = pd.Series(y)
      if self.regression is True:
          pass

  def predict(self, X):
      pass
  \<close>
  A Python function whose body ends without \<open>return\<close> returns \<open>None\<close>.
\<close>

definition TargetMeanPredictor_init :: "estimator \<Rightarrow> pyval \<Rightarrow> pyval \<Rightarrow> pyval \<Rightarrow> estimator" where
  "TargetMeanPredictor_init self regression_arg bins_arg strategy_arg =
     self\<lparr>regression := Some regression_arg, bins := Some bins_arg, strategy := Some strategy_arg\<rparr>"

definition TargetMeanPredictor_fit ::
  "estimator \<Rightarrow> table_arg \<Rightarrow> cell list \<Rightarrow> error + cell list pyresult \<times> estimator" where
  "TargetMeanPredictor_fit self X_arg y =
     and_then (is_dataframe X_arg) (\<lambda>X.
     and_then (check_contains_na X None) (\<lambda>_.
     and_then (getattr (regression self)) (\<lambda>_.
     Inr (ReturnsNone, self))))"

definition TargetMeanPredictor_predict :: "estimator \<Rightarrow> table_arg \<Rightarrow> error + cell list pyresult" where
  "TargetMeanPredictor_predict self X_arg = Inr ReturnsNone"


section \<open>\<open>InformationValue.__init__\<close>\<close>






section \<open>Example instances and tables\<close>

text \<open>
  A fitted discretiser of one variable, with the edges a discretiser learns for three
  bins (the outer edges are infinite), and two tables for it: one inside the range of the
  finite edges, one outside.
\<close>

definition age_discretiser :: estimator where
  "age_discretiser =
     new_object\<lparr>return_object := Some (PyBool False), return_boundaries := Some (PyBool False),
       errors := Some (PyStr ''ignore''), variables_fit := Some [''Age''], n_features_in := Some 1,
       binner_dict := Some [(''Age'', [MInf, Fin 20, Fin 30, PInf])]\<rparr>"


definition ages_out_of_range :: dataframe where
  "ages_out_of_range = \<lparr>index = [Some 0, Some 1], columns = [(''Age'', [Num (Fin 5), Num (Fin 100)])]\<rparr>"

text \<open>
  A lag transformer after \<open>fit\<close> on a table of two columns, with either policy for
  missing values, and three tables of temperature readings every 15 minutes: one with a
  repeated row label, one complete, one with a missing reading.
\<close>

definition lag_transformer :: "string \<Rightarrow> estimator" where
  "lag_transformer policy =
     new_object\<lparr>missing_values := Some (PyStr policy), drop_original := Some (PyBool False),
       sort_index := Some (PyBool False), periods := Some (PyInt 3),
       variables_fit := Some [''ambient_temp'', ''module_temp''], n_features_in := Some 2,
       feature_names_in := Some [''ambient_temp'', ''module_temp'']\<rparr>"


definition readings_with_gap :: dataframe where
  "readings_with_gap =
     \<lparr>index = [Some 0, Some 15, Some 30],
      columns = [(''ambient_temp'', [Num (Fin 31), NaN, Num (Fin 33)]),
                 (''module_temp'', [Num (Fin 49), Num (Fin 50), Num (Fin 52)])]\<rparr>"

text \<open>
  A target-mean predictor as \<open>TargetMeanPredictor(bins=5, strategy="equal-width")\<close>
  constructs it, and a training table with the columns \<open>City\<close> and \<open>Age\<close> and the target
  \<open>Marks\<close>.
\<close>

definition mean_predictor :: estimator where
  "mean_predictor =
     TargetMeanPredictor_init new_object (PyBool True) (PyInt 5) (PyStr ''equal-width'')"

definition marks_table :: dataframe where
  "marks_table =
     \<lparr>index = [Some 0, Some 1, Some 2, Some 3],
      columns = [(''City'', [Str ''London'', Str ''London'', Str ''Bristol'', Str ''London'']),
                 (''Age'', [Num (Fin 20), Num (Fin 21), Num (Fin 19), Num (Fin 18)])]\<rparr>"

definition marks :: "rat list" where
  "marks = [1, 1 / 2, 1 / 10, 1 / 2]"

text \<open>
  A mean encoder of the variable \<open>City\<close>: a stand-in for the inherited input check that
  accepts every frame and selects \<open>City\<close>, one for the inherited dictionary check that
  accepts every dictionary, and the state that \<open>fit\<close> on the training table leaves.
\<close>

definition select_city :: "estimator \<Rightarrow> table_arg \<Rightarrow> error + dataframe \<times> estimator" where
  "select_city self X_arg =
     (case X_arg of
        Frame df \<Rightarrow> Inr (df, self\<lparr>variables_fit := Some [''City'']\<rparr>)
      | NotFrame _ \<Rightarrow> Inl TypeError)"

definition accept_dictionary :: "estimator \<Rightarrow> error + unit" where
  "accept_dictionary self = Inr ()"

definition city_encoder :: estimator where
  "city_encoder =
     new_object\<lparr>variables_fit := Some [''City''], n_features_in := Some 2,
       encoder_dict := Some [(''City'', [(Str ''Bristol'', Num (Fin (1 / 10))),
                                          (Str ''London'', Num (Fin (2 / 3)))])]\<rparr>"


section \<open>Properties\<close>

subsection \<open>Sequencing and attribute reads\<close>

lemma and_then_Inr_iff:
  "and_then r f = Inr v \<longleftrightarrow> (\<exists>u. r = Inr u \<and> f u = Inr v)"
  by (cases r) (simp_all add: and_then_def)

lemma and_then_Inr [simp]: "and_then (Inr u) f = f u"
  by (simp add: and_then_def)

lemma and_then_Inl [simp]: "and_then (Inl e) f = Inl e"
  by (simp add: and_then_def)

lemma getattr_Some [simp]: "getattr (Some v) = Inr v"
  by (simp add: getattr_def)

lemma getattr_None [simp]: "getattr None = Inl AttributeError"
  by (simp add: getattr_def)

subsection \<open>The constructor of \<open>InformationValue\<close>\<close>




subsection \<open>The lag transformer's checks\<close>

lemma null_label_count: "filter (\<lambda>l. l = None) ls = [] \<longleftrightarrow> None \<notin> set ls"
  by (induction ls) auto



lemma select_columns_mem:
  "select_columns X vs = Inr cs \<Longrightarrow> v \<in> set vs \<Longrightarrow> (v, col) \<in> set (columns X) \<Longrightarrow> col \<in> set cs"
proof (induction vs arbitrary: cs)
  case Nil
  then show ?case by simp
next
  case (Cons n ns)
  from Cons.prems(1) obtain c cs' rest where
    f: "filter (\<lambda>c. fst c = n) (columns X) = c # cs'" and
    r: "select_columns X ns = Inr rest" and
    cs: "cs = map snd (c # cs') @ rest"
    by (auto split: list.splits simp add: and_then_Inr_iff)
  show ?case
  proof (cases "v = n")
    case True
    with Cons.prems(3) have "(v, col) \<in> set (filter (\<lambda>c. fst c = n) (columns X))" by simp
    with f have "(v, col) \<in> set (c # cs')" by simp
    then have "col \<in> snd ` set (c # cs')" by force
    with cs show ?thesis by auto
  next
    case False
    with Cons.prems(2) have "v \<in> set ns" by simp
    from Cons.IH [OF r this Cons.prems(3)] cs show ?thesis by simp
  qed
qed

lemma select_columns_total:
  "set vs \<subseteq> fst ` set (columns X) \<Longrightarrow> \<exists>cs. select_columns X vs = Inr cs"
proof (induction vs)
  case Nil
  then show ?case by simp
next
  case (Cons n ns)
  then obtain rest where r: "select_columns X ns = Inr rest" by auto
  from Cons.prems obtain c where "c \<in> set (columns X)" "fst c = n" by auto
  then have "filter (\<lambda>c. fst c = n) (columns X) \<noteq> []"
    by (auto simp add: filter_empty_conv)
  with r show ?case by (auto split: list.splits)
qed

lemma content_checks_raise:
  assumes sel: "select_columns X vs = Inr cs" and c: "c \<in> set (concat cs)"
      and bad: "c = NaN \<or> is_inf c"
  shows "and_then (check_contains_na X (Some vs)) (\<lambda>_. check_contains_inf X (Some vs)) = Inl ValueError"
proof (cases "list_ex (\<lambda>c. c = NaN) (concat cs)")
  case True
  with sel show ?thesis by (simp add: check_contains_na_def)
next
  case False
  with c bad have "is_inf c" by (auto simp add: list_ex_iff)
  with c have "list_ex is_inf (concat cs)" by (auto simp add: list_ex_iff)
  with False sel show ?thesis by (simp add: check_contains_na_def check_contains_inf_def)
qed

lemma content_checks_never_pass:
  assumes v: "v \<in> set vs" and col: "(v, col) \<in> set (columns X)" and c: "c \<in> set col"
      and bad: "c = NaN \<or> is_inf c"
  shows "and_then (check_contains_na X (Some vs)) (\<lambda>_. check_contains_inf X (Some vs)) \<noteq> Inr u"
proof (cases "select_columns X vs")
  case (Inl e)
  then show ?thesis by (simp add: check_contains_na_def)
next
  case (Inr cs)
  from select_columns_mem [OF Inr v col] c have "c \<in> set (concat cs)" by auto
  from content_checks_raise [OF Inr this bad] show ?thesis by simp
qed

text \<open>
  C10. With \<open>missing_values == "raise"\<close>, a table in which a selected column holds a
  missing or an infinite value is never returned by \<open>BaseForecast.transform\<close>; when the
  checks that run before pass and every selected variable is a column, the exception is
  the \<open>ValueError\<close> of the content check. With \<open>missing_values == "ignore"\<close> and the
  earlier checks passed, the result is that of the last step alone (the read of
  \<open>sort_index\<close> and the optional sort), whatever the cells hold.
\<close>

theorem BaseForecast_transform_missing_values_policy:
  "(missing_values self = Some (PyStr ''raise'') \<longrightarrow> variables_fit self = Some vs \<longrightarrow>
      v \<in> set vs \<longrightarrow> (v, col) \<in> set (columns X) \<longrightarrow> c \<in> set col \<longrightarrow> (c = NaN \<or> is_inf c) \<longrightarrow>
        (\<forall>out. BaseForecast_transform self (Frame X) \<noteq> Inr out)
        \<and> (check_is_fitted self \<longrightarrow> n_features_in self = Some (length (columns X)) \<longrightarrow>
             None \<notin> set (index X) \<longrightarrow> distinct (index X) \<longrightarrow> set vs \<subseteq> fst ` set (columns X) \<longrightarrow>
               BaseForecast_transform self (Frame X) = Inl ValueError))
   \<and> (missing_values self = Some (PyStr ''ignore'') \<longrightarrow> check_is_fitted self \<longrightarrow>
        n_features_in self = Some (length (columns X)) \<longrightarrow> None \<notin> set (index X) \<longrightarrow>
        distinct (index X) \<longrightarrow>
          BaseForecast_transform self (Frame X)
            = and_then (getattr (sort_index self)) (\<lambda>si.
                Inr (if si = PyBool True then df_sort_index X else X)))"
proof (intro conjI impI allI)
  fix out
  assume mv: "missing_values self = Some (PyStr ''raise'')" and vs: "variables_fit self = Some vs"
    and v: "v \<in> set vs" and col: "(v, col) \<in> set (columns X)" and c: "c \<in> set col"
    and bad: "c = NaN \<or> is_inf c"
  note never = content_checks_never_pass [OF v col c bad]
  show "BaseForecast_transform self (Frame X) \<noteq> Inr out"
    using mv vs never
    by (auto simp add: BaseForecast_transform_def is_dataframe_def and_then_Inr_iff)
next
  assume mv: "missing_values self = Some (PyStr ''raise'')" and vs: "variables_fit self = Some vs"
    and v: "v \<in> set vs" and col: "(v, col) \<in> set (columns X)" and c: "c \<in> set col"
    and bad: "c = NaN \<or> is_inf c"
    and ok: "check_is_fitted self" "n_features_in self = Some (length (columns X))"
      "None \<notin> set (index X)" "distinct (index X)"
    and sub: "set vs \<subseteq> fst ` set (columns X)"
  from select_columns_total [OF sub] obtain cs where sel: "select_columns X vs = Inr cs" ..
  from select_columns_mem [OF sel v col] c have "c \<in> set (concat cs)" by auto
  note raise = content_checks_raise [OF sel this bad]
  show "BaseForecast_transform self (Frame X) = Inl ValueError"
    using mv vs ok raise
    by (simp add: BaseForecast_transform_def is_dataframe_def
        check_input_matches_training_df_def null_label_count)
next
  assume "missing_values self = Some (PyStr ''ignore'')" "check_is_fitted self"
    "n_features_in self = Some (length (columns X))" "None \<notin> set (index X)" "distinct (index X)"
  then show "BaseForecast_transform self (Frame X)
      = and_then (getattr (sort_index self)) (\<lambda>si. Inr (if si = PyBool True then df_sort_index X else X))"
    by (simp add: BaseForecast_transform_def is_dataframe_def
        check_input_matches_training_df_def null_label_count)
qed

theorem BaseForecast_transform_missing_values_policy_witness:
  "BaseForecast_transform (lag_transformer ''raise'') (Frame readings_with_gap) = Inl ValueError
   \<and> BaseForecast_transform (lag_transformer ''ignore'') (Frame readings_with_gap)
       = Inr readings_with_gap"
proof -
  let ?vs = "[''ambient_temp'', ''module_temp'']"
  let ?col = "[Num (Fin 31), NaN, Num (Fin 33)]"
  have fitted: "check_is_fitted (lag_transformer p)" for p
    by (simp add: check_is_fitted_def lag_transformer_def new_object_def)
  have n: "n_features_in (lag_transformer p) = Some (length (columns readings_with_gap))" for p
    by (simp add: lag_transformer_def new_object_def readings_with_gap_def)
  have idx: "None \<notin> set (index readings_with_gap)" "distinct (index readings_with_gap)"
    by (simp_all add: readings_with_gap_def)
  have vs: "variables_fit (lag_transformer p) = Some ?vs" for p
    by (simp add: lag_transformer_def new_object_def)
  have mv: "missing_values (lag_transformer p) = Some (PyStr p)" for p
    by (simp add: lag_transformer_def new_object_def)
  have si: "sort_index (lag_transformer p) = Some (PyBool False)" for p
    by (simp add: lag_transformer_def new_object_def)
  have col: "(''ambient_temp'', ?col) \<in> set (columns readings_with_gap)"
    by (simp add: readings_with_gap_def)
  have sub: "set ?vs \<subseteq> fst ` set (columns readings_with_gap)"
    by (simp add: readings_with_gap_def)
  have "BaseForecast_transform (lag_transformer ''raise'') (Frame readings_with_gap) = Inl ValueError"
    using BaseForecast_transform_missing_values_policy
      [of "lag_transformer ''raise''" ?vs "''ambient_temp''" ?col readings_with_gap NaN]
      mv vs col fitted n idx sub
    by simp
  moreover have "BaseForecast_transform (lag_transformer ''ignore'') (Frame readings_with_gap)
      = Inr readings_with_gap"
    using BaseForecast_transform_missing_values_policy
      [of "lag_transformer ''ignore''" ?vs "''ambient_temp''" ?col readings_with_gap NaN]
      mv fitted n idx si
    by simp
  ultimately show ?thesis by simp
qed

subsection \<open>Constructors\<close>

text \<open>
  C6. A constructor that is given an invalid argument raises \<open>ValueError\<close> and returns
  no instance: \<open>BaseForecast.__init__\<close> for \<open>missing_values\<close> outside \<open>raise\<close>/\<open>ignore\<close> or
  a \<open>drop_original\<close> that is no boolean; \<open>BaseDiscretiser.__init__\<close> for a \<open>return_object\<close>
  or \<open>return_boundaries\<close> that is no boolean or \<open>errors\<close> outside \<open>ignore\<close>/\<open>raise\<close>; the
  lag transformer's constructor for \<open>periods\<close> that is no positive integer. No
  constructor takes a table, and no instance exists that could be given one.
\<close>

theorem constructors_reject_invalid_arguments:
  "(mv \<notin> {PyStr ''raise'', PyStr ''ignore''} \<or> (\<forall>b. dro \<noteq> PyBool b) \<longrightarrow>
      BaseForecast_init self mv dro = Inl ValueError)
   \<and> ((\<forall>b. ro \<noteq> PyBool b) \<or> (\<forall>b. rb \<noteq> PyBool b) \<or> er \<notin> {PyStr ''ignore'', PyStr ''raise''} \<longrightarrow>
      BaseDiscretiser_init self ro rb er = Inl ValueError)
   \<and> ((\<forall>n. p = PyInt n \<longrightarrow> n \<le> 0) \<longrightarrow>
      TimeSeriesLagTransformer_init self p mv dro = Inl ValueError)"
proof (intro conjI impI)
  have bool: "isinstance_bool x \<longleftrightarrow> (\<exists>b. x = PyBool b)" for x
    by (cases x) (simp_all add: isinstance_bool_def)
  {
    assume "mv \<notin> {PyStr ''raise'', PyStr ''ignore''} \<or> (\<forall>b. dro \<noteq> PyBool b)"
    then show "BaseForecast_init self mv dro = Inl ValueError"
      by (auto simp add: BaseForecast_init_def bool)
  }
  {
    assume "(\<forall>b. ro \<noteq> PyBool b) \<or> (\<forall>b. rb \<noteq> PyBool b) \<or> er \<notin> {PyStr ''ignore'', PyStr ''raise''}"
    then show "BaseDiscretiser_init self ro rb er = Inl ValueError"
      by (auto simp add: BaseDiscretiser_init_def bool)
  }
  {
    assume "\<forall>n. p = PyInt n \<longrightarrow> n \<le> 0"
    then show "TimeSeriesLagTransformer_init self p mv dro = Inl ValueError"
      by (cases p) (simp_all add: TimeSeriesLagTransformer_init_def)
  }
qed

theorem constructors_reject_invalid_arguments_witness:
  "BaseForecast_init new_object (PyStr ''cumbia'') (PyBool False) = Inl ValueError
   \<and> BaseDiscretiser_init new_object (PyBool False) (PyInt 1) (PyStr ''ignore'') = Inl ValueError
   \<and> TimeSeriesLagTransformer_init new_object (PyStr ''cumbia'') (PyStr ''cumbia'') (PyBool False)
       = Inl ValueError"
  using constructors_reject_invalid_arguments
    [of "PyStr ''cumbia''" "PyBool False" new_object "PyBool False" "PyInt 1" "PyStr ''ignore''"
        "PyStr ''cumbia''"]
  by simp

text \<open>
  The two constructors accept every valid combination of arguments and store them.
\<close>

lemma constructors_accept_valid_arguments:
  "BaseForecast_init self (PyStr ''raise'') (PyBool b)
     = Inr (self\<lparr>missing_values := Some (PyStr ''raise''), drop_original := Some (PyBool b)\<rparr>)
   \<and> BaseForecast_init self (PyStr ''ignore'') (PyBool b)
     = Inr (self\<lparr>missing_values := Some (PyStr ''ignore''), drop_original := Some (PyBool b)\<rparr>)
   \<and> BaseDiscretiser_init self (PyBool ro) (PyBool rb) (PyStr ''ignore'')
     = Inr (self\<lparr>return_object := Some (PyBool ro), return_boundaries := Some (PyBool rb),
                   errors := Some (PyStr ''ignore'')\<rparr>)
   \<and> BaseDiscretiser_init self (PyBool ro) (PyBool rb) (PyStr ''raise'')
     = Inr (self\<lparr>return_object := Some (PyBool ro), return_boundaries := Some (PyBool rb),
                   errors := Some (PyStr ''raise'')\<rparr>)"
  by (simp add: BaseForecast_init_def BaseDiscretiser_init_def isinstance_bool_def)

subsection \<open>The discretiser's transform\<close>




text \<open>
  When the first edge is \<open>-inf\<close> and a later edge is \<open>+inf\<close>, as in the example
  discretiser, the binning gives every finite number the position of a bin, never a
  missing value.
\<close>

lemma searchsorted_left_bounds:
  assumes "edges = MInf # rest" "PInf \<in> set rest"
  shows "0 < searchsorted_left edges (Fin v) \<and> searchsorted_left edges (Fin v) < length edges"
proof -
  have "\<not> xless PInf (Fin v)" by simp
  with assms have "\<not> (\<forall>b\<in>set edges. xless b (Fin v))"
    by (metis list.set_intros(2))
  then have "takeWhile (\<lambda>b. xless b (Fin v)) edges \<noteq> edges"
    by (simp add: takeWhile_eq_all_conv)
  moreover have "length (takeWhile (\<lambda>b. xless b (Fin v)) edges) \<le> length edges"
    by (rule length_takeWhile_le)
  moreover have "length (takeWhile (\<lambda>b. xless b (Fin v)) edges) = length edges
      \<Longrightarrow> takeWhile (\<lambda>b. xless b (Fin v)) edges = edges"
    by (metis takeWhile_dropWhile_id append_eq_conv_conj take_all order_refl)
  ultimately have "searchsorted_left edges (Fin v) < length edges"
    unfolding searchsorted_left_def by (metis le_neq_implies_less)
  moreover have "0 < searchsorted_left edges (Fin v)"
    using assms(1) by (simp add: searchsorted_left_def)
  ultimately show ?thesis by simp
qed

lemma cut_cell_infinite_outer_edges:
  "edges = MInf # rest \<longrightarrow> PInf \<in> set rest \<longrightarrow>
     (\<exists>i. cut_cell edges True (Num (Fin v)) = Inr (Num (Fin (of_nat i))) \<and> i + 1 < length edges)"
proof (intro impI)
  assume a: "edges = MInf # rest" "PInf \<in> set rest"
  from searchsorted_left_bounds [OF a, of v]
  have b: "0 < searchsorted_left edges (Fin v)" "searchsorted_left edges (Fin v) < length edges"
    by simp_all
  then have "cut_cell edges True (Num (Fin v)) = Inr (Num (Fin (of_nat (searchsorted_left edges (Fin v) - 1))))"
    by (simp add: cut_cell_def Let_def)
  moreover from b have "searchsorted_left edges (Fin v) - 1 + 1 < length edges" by simp
  ultimately show "\<exists>i. cut_cell edges True (Num (Fin v)) = Inr (Num (Fin (of_nat i))) \<and> i + 1 < length edges"
    by blast
qed

text \<open>
  C4 (the code against the claim). The binning step alone puts the ages 5 and 100, which
  lie outside the finite edges 20 and 30, in the first and the last bin; the call of
  \<open>transform\<close> on the same table then raises \<open>AttributeError\<close> and returns nothing.
\<close>

theorem BaseDiscretiser_transform_out_of_range_fails:
  "discretise age_discretiser ages_out_of_range
     = Inr \<lparr>index = [Some 0, Some 1], columns = [(''Age'', [Num (Fin 0), Num (Fin 2)])]\<rparr>
   \<and> BaseDiscretiser_transform BaseNumericalTransformer_transform age_discretiser (Frame ages_out_of_range)
       = Inl AttributeError"
  by (simp add: BaseDiscretiser_transform_def BaseNumericalTransformer_transform_def
      check_is_fitted_def is_dataframe_def check_input_matches_training_df_def
      check_introduced_nan_def
      discretise_def age_discretiser_def ages_out_of_range_def new_object_def truthy_def
      get_column_def dict_get_def pd_cut_def cut_cell_def searchsorted_left_def set_column_def)

subsection \<open>The mean encoder's fit\<close>











lemma MeanEncoder_fit_marks:
  "MeanEncoder_fit select_city accept_dictionary new_object (Frame marks_table)
      (map (\<lambda>r. Num (Fin r)) marks) = Inr (ReturnsSelf, city_encoder)"
  by (simp add: MeanEncoder_fit_def select_city_def accept_dictionary_def new_object_def
      marks_table_def marks_def city_encoder_def groupby_target_mean_def get_column_def
      is_numeric_or_missing_def mean_cells_def numbers_def finite_values_def
      List.map_filter_simps)


text \<open>
  Whenever \<open>MeanEncoder.fit\<close> returns, it returns \<open>self\<close>, and \<open>n_features_in_\<close> is the
  number of columns of the table that the input check handed back.
\<close>

lemma MeanEncoder_fit_returns_self:
  "MeanEncoder_fit check_fit check_dict self X_arg y = Inr (r, fitted) \<longrightarrow>
     r = ReturnsSelf
     \<and> (\<exists>X self1. check_fit self X_arg = Inr (X, self1)
           \<and> n_features_in fitted = Some (length (columns X)))"
  by (auto simp add: MeanEncoder_fit_def Let_def and_then_Inr_iff)

lemma MeanEncoder_fit_returns_self_marks:
  "MeanEncoder_fit select_city accept_dictionary new_object (Frame marks_table)
      (map (\<lambda>r. Num (Fin r)) marks) = Inr (ReturnsSelf, city_encoder)
   \<and> n_features_in city_encoder = Some 2"
  using MeanEncoder_fit_returns_self [of select_city accept_dictionary new_object
      "Frame marks_table" "map (\<lambda>r. Num (Fin r)) marks" ReturnsSelf city_encoder]
    MeanEncoder_fit_marks
  by (auto simp add: select_city_def marks_table_def)

subsection \<open>The target-mean predictor\<close>

lemma TargetMeanPredictor_fit_unchanged:
  "TargetMeanPredictor_fit self X_arg y = Inr (r, s) \<Longrightarrow> r = ReturnsNone \<and> s = self"
  by (auto simp add: TargetMeanPredictor_fit_def and_then_Inr_iff)

lemma TargetMeanPredictor_fit_marks:
  "TargetMeanPredictor_fit mean_predictor (Frame marks_table) (map (\<lambda>r. Num (Fin r)) marks)
     = Inr (ReturnsNone, mean_predictor)"
  by (simp add: TargetMeanPredictor_fit_def is_dataframe_def check_contains_na_def
      marks_table_def mean_predictor_def TargetMeanPredictor_init_def new_object_def)

text \<open>
  C1 (the code against the claim). \<open>fit\<close> of the predictor constructed with \<open>bins=5\<close> and
  \<open>strategy="equal-width"\<close>, on a table with the columns \<open>City\<close> and \<open>Age\<close> and its
  target, returns \<open>None\<close> and leaves the instance as the constructor made it: reading
  \<open>variables_\<close> or an encoder dictionary afterwards raises \<open>AttributeError\<close>.
\<close>

theorem TargetMeanPredictor_fit_learns_nothing:
  "TargetMeanPredictor_fit mean_predictor (Frame marks_table) (map (\<lambda>r. Num (Fin r)) marks)
     = Inr (ReturnsNone, mean_predictor)
   \<and> getattr (variables_fit mean_predictor) = Inl AttributeError
   \<and> getattr (encoder_dict mean_predictor) = Inl AttributeError"
  by (simp add: TargetMeanPredictor_fit_marks)
    (simp add: mean_predictor_def TargetMeanPredictor_init_def new_object_def)

text \<open>
  C2 (the code against the claim). \<open>predict\<close> returns \<open>None\<close> on every instance and every
  input: it returns no sequence of predictions, of any length.
\<close>

theorem TargetMeanPredictor_predict_returns_None:
  "TargetMeanPredictor_predict self X_arg = Inr ReturnsNone
   \<and> (\<forall>predictions. TargetMeanPredictor_predict self X_arg \<noteq> Inr (Returns predictions))"
  by (simp add: TargetMeanPredictor_predict_def)

text \<open>
  C7 (the code against the claim). \<open>TargetMeanPredictor.fit\<close> never returns \<open>self\<close>: on
  the valid training input above it returns \<open>None\<close>. \<open>MeanEncoder.fit\<close>, on the same
  table, returns \<open>self\<close>.
\<close>

theorem TargetMeanPredictor_fit_does_not_return_self:
  "(\<forall>s. TargetMeanPredictor_fit self X_arg y \<noteq> Inr (ReturnsSelf, s))
   \<and> fst (projr (TargetMeanPredictor_fit mean_predictor (Frame marks_table)
                  (map (\<lambda>r. Num (Fin r)) marks))) = ReturnsNone"
proof -
  have "TargetMeanPredictor_fit self X_arg y \<noteq> Inr (ReturnsSelf, s)" for s
    using TargetMeanPredictor_fit_unchanged [of self X_arg y ReturnsSelf s] by auto
  then show ?thesis by (simp add: TargetMeanPredictor_fit_marks)
qed

end
